theory Spec2Isabelle
  imports
    Complex_Main
    "HOL-Library.AList"
    "HOL-Library.Multiset"
    "HOL-Library.Char_ord"
    "HOL-Library.List_Lexorder"
begin

section \<open>Python values, dictionaries and exceptions\<close>

text \<open>
  The repository passes papers and scoring results around as Python dictionaries
  (\<^verbatim>\<open>Dict\<close>). A dictionary is an association list with string keys: \<^verbatim>\<open>d.get(k, v)\<close>
  is \<open>py_get\<close>, \<^verbatim>\<open>d[k] = v\<close> is \<open>py_setitem\<close> (the value is replaced where the key
  is, a new key goes to the end, as in Python).

  The values are \<^verbatim>\<open>None\<close>, unbounded integers, strings and the response object of the
  model API (of which the code reads the attribute \<^verbatim>\<open>text\<close> only, here
  \<open>response_text\<close>). Floats, booleans, lists and nested dictionaries are not
  represented: no function below reads an entry that holds one.
\<close>

datatype py_error = TypeError | ValueError | ZeroDivisionError

record response =
  response_text :: string

datatype pyval = PyNone | PyInt int | PyStr string | PyResponse response

type_synonym pydict = "(string \<times> pyval) list"

text \<open>
  Sequencing of two computations that may raise: the second one runs on the value of the
  first, and an exception of the first is the exception of the whole.
\<close>

definition py_bind :: "py_error + 'a \<Rightarrow> ('a \<Rightarrow> py_error + 'b) \<Rightarrow> py_error + 'b" where
  "py_bind m f = (case m of Inl e \<Rightarrow> Inl e | Inr x \<Rightarrow> f x)"

definition py_get :: "pydict \<Rightarrow> string \<Rightarrow> pyval \<Rightarrow> pyval" where
  "py_get d k dflt = (case map_of d k of None \<Rightarrow> dflt | Some v \<Rightarrow> v)"

definition py_setitem :: "pydict \<Rightarrow> string \<Rightarrow> pyval \<Rightarrow> pydict" where
  "py_setitem d k v = AList.update k v d"

text \<open>
  Python's comparisons: integers compare with integers, strings with strings (by code
  point, which is the byte order of their UTF-8 encoding); everything else raises
  \<^verbatim>\<open>TypeError\<close>, also \<^verbatim>\<open>None < None\<close>.
\<close>

fun py_lt :: "pyval \<Rightarrow> pyval \<Rightarrow> py_error + bool" where
  "py_lt (PyInt a) (PyInt b) = Inr (a < b)"
| "py_lt (PyStr a) (PyStr b) = Inr (a < b)"
| "py_lt _ _ = Inl TypeError"

fun py_ge :: "pyval \<Rightarrow> pyval \<Rightarrow> py_error + bool" where
  "py_ge (PyInt a) (PyInt b) = Inr (a \<ge> b)"
| "py_ge (PyStr a) (PyStr b) = Inr (a \<ge> b)"
| "py_ge _ _ = Inl TypeError"

text \<open>\<^verbatim>\<open>acc + v\<close> with an integer accumulator, as \<^verbatim>\<open>sum\<close> computes it from its start 0.\<close>

fun py_add :: "int \<Rightarrow> pyval \<Rightarrow> py_error + int" where
  "py_add a (PyInt b) = Inr (a + b)"
| "py_add a _ = Inl TypeError"

fun py_sum_from :: "int \<Rightarrow> pyval list \<Rightarrow> py_error + int" where
  "py_sum_from acc [] = Inr acc"
| "py_sum_from acc (v # vs) =
     (case py_add acc v of Inl e \<Rightarrow> Inl e | Inr acc' \<Rightarrow> py_sum_from acc' vs)"

definition py_sum :: "pyval list \<Rightarrow> py_error + int" where
  "py_sum vs = py_sum_from 0 vs"

text \<open>
  True division of two integers. Python returns the float nearest to the quotient; the
  model keeps the quotient itself, as a rational number, so neither the rounding nor the
  range of floats is part of it.
\<close>

definition py_truediv :: "int \<Rightarrow> int \<Rightarrow> py_error + rat" where
  "py_truediv a b = (if b = 0 then Inl ZeroDivisionError else Inr (of_int a / of_int b))"

text \<open>
  A list comprehension \<^verbatim>\<open>[x for x in xs if c(x)]\<close> whose condition may raise: the first
  exception, in list order, ends it.
\<close>

fun py_filter :: "('a \<Rightarrow> py_error + bool) \<Rightarrow> 'a list \<Rightarrow> py_error + 'a list" where
  "py_filter c [] = Inr []"
| "py_filter c (x # xs) =
     (case c x of
        Inl e \<Rightarrow> Inl e
      | Inr b \<Rightarrow> (case py_filter c xs of
                   Inl e \<Rightarrow> Inl e
                 | Inr r \<Rightarrow> Inr (if b then x # r else r)))"

text \<open>
  \<^verbatim>\<open>sorted(xs, key=f, reverse=r)\<close>: a stable sort that compares keys with \<^verbatim>\<open><\<close> only and
  returns a new list. With \<^verbatim>\<open>reverse=True\<close> CPython reverses the list, sorts it
  in ascending order and reverses the result, which keeps equal keys in their input
  order. The sort is written as an insertion sort; an element is placed behind the
  elements whose key is smaller and before the first one whose key is not.
\<close>

fun py_insort :: "('a \<Rightarrow> pyval) \<Rightarrow> 'a \<Rightarrow> 'a list \<Rightarrow> py_error + 'a list" where
  "py_insort key x [] = Inr [x]"
| "py_insort key x (y # ys) =
     (case py_lt (key y) (key x) of
        Inl e \<Rightarrow> Inl e
      | Inr b \<Rightarrow>
          if b then (case py_insort key x ys of Inl e \<Rightarrow> Inl e | Inr r \<Rightarrow> Inr (y # r))
          else Inr (x # y # ys))"

fun py_sort :: "('a \<Rightarrow> pyval) \<Rightarrow> 'a list \<Rightarrow> py_error + 'a list" where
  "py_sort key [] = Inr []"
| "py_sort key (x # xs) =
     (case py_sort key xs of Inl e \<Rightarrow> Inl e | Inr r \<Rightarrow> py_insort key x r)"

definition py_sorted :: "('a \<Rightarrow> pyval) \<Rightarrow> bool \<Rightarrow> 'a list \<Rightarrow> py_error + 'a list" where
  "py_sorted key reverse xs =
     (if reverse then
        (case py_sort key (rev xs) of Inl e \<Rightarrow> Inl e | Inr r \<Rightarrow> Inr (rev r))
      else py_sort key xs)"

text \<open>
  The slice \<^verbatim>\<open>xs[:limit]\<close>: a negative \<^verbatim>\<open>limit\<close> counts from the end of the list, so
  \<^verbatim>\<open>xs[:-1]\<close> is the list without its last element.
\<close>

definition py_slice_to :: "'a list \<Rightarrow> int \<Rightarrow> 'a list" where
  "py_slice_to xs limit =
     (if 0 \<le> limit then take (nat limit) xs
      else take (length xs - nat (- limit)) xs)"


section \<open>The paper ranker (\<^verbatim>\<open>src/utils/ranking.py\<close>)\<close>

record PaperRanker =
  min_combined_score :: int

text \<open>\<^verbatim>\<open>PaperRanker()\<close>: the constructor's default threshold.\<close>

definition PaperRanker_init :: PaperRanker where
  "PaperRanker_init = \<lparr> min_combined_score = 4 \<rparr>"

definition rank_papers_by_scores :: "PaperRanker \<Rightarrow> pydict list \<Rightarrow> py_error + pydict list" where
  "rank_papers_by_scores self papers =
     py_sorted (\<lambda>p. py_get p ''combined_score'' (PyInt 0)) True papers"

definition filter_by_minimum_score :: "PaperRanker \<Rightarrow> pydict list \<Rightarrow> py_error + pydict list" where
  "filter_by_minimum_score self papers =
     py_filter (\<lambda>p. py_ge (py_get p ''combined_score'' (PyInt 0))
                          (PyInt (min_combined_score self))) papers"

definition select_top_papers :: "PaperRanker \<Rightarrow> pydict list \<Rightarrow> int \<Rightarrow> py_error + pydict list" where
  "select_top_papers self papers limit =
     (case filter_by_minimum_score self papers of
        Inl e \<Rightarrow> Inl e
      | Inr filtered_papers \<Rightarrow>
          (case rank_papers_by_scores self filtered_papers of
             Inl e \<Rightarrow> Inl e
           | Inr ranked_papers \<Rightarrow> Inr (py_slice_to ranked_papers limit)))"

text \<open>\<^verbatim>\<open>select_top_papers(papers)\<close>: the default \<^verbatim>\<open>limit\<close> is 10.\<close>

definition select_top_papers_default :: "PaperRanker \<Rightarrow> pydict list \<Rightarrow> py_error + pydict list" where
  "select_top_papers_default self papers = select_top_papers self papers 10"

record selection_stats =
  total :: int
  avg_relevance :: rat
  avg_significance :: rat
  avg_combined :: rat
  high_relevance_count :: int
  high_significance_count :: int

text \<open>
  The statements of \<^verbatim>\<open>get_selection_stats\<close> run in the order of the source (each
  \<open>py_bind\<close> is one evaluation that may raise), so the first exception is the one the
  caller sees. \<^verbatim>\<open>sum(1 for p in papers if c(p))\<close> counts the
  records that satisfy \<^verbatim>\<open>c\<close>; \<^verbatim>\<open>==\<close> never raises.
\<close>

definition get_selection_stats :: "PaperRanker \<Rightarrow> pydict list \<Rightarrow> py_error + selection_stats" where
  "get_selection_stats self papers =
     (if papers = [] then
        Inr \<lparr> total = 0, avg_relevance = 0, avg_significance = 0, avg_combined = 0,
              high_relevance_count = 0, high_significance_count = 0 \<rparr>
      else
        let n = int (length papers) in
        py_bind (py_sum (map (\<lambda>p. py_get p ''relevance_score'' (PyInt 0)) papers)) (\<lambda>sum_rel.
        py_bind (py_truediv sum_rel n) (\<lambda>avg_rel.
        py_bind (py_sum (map (\<lambda>p. py_get p ''significance_score'' (PyInt 0)) papers)) (\<lambda>sum_sig.
        py_bind (py_truediv sum_sig n) (\<lambda>avg_sig.
        py_bind (py_sum (map (\<lambda>p. py_get p ''combined_score'' (PyInt 0)) papers)) (\<lambda>sum_comb.
        py_bind (py_truediv sum_comb n) (\<lambda>avg_comb.
        let high_rel =
              int (length (filter (\<lambda>p. py_get p ''relevance_score'' (PyInt 0) = PyInt 3) papers));
            high_sig =
              int (length (filter (\<lambda>p. py_get p ''significance_score'' (PyInt 0) = PyInt 3) papers))
        in Inr \<lparr> total = n, avg_relevance = avg_rel,
                 avg_significance = avg_sig, avg_combined = avg_comb,
                 high_relevance_count = high_rel,
                 high_significance_count = high_sig \<rparr>)))))))"


section \<open>Objects and references\<close>

text \<open>
  A Python variable holds a reference. The store keeps the dictionary objects and the
  list objects apart; a list object is a list of references to dictionaries. List
  addresses below \<open>next_list\<close> are in use, and \<^verbatim>\<open>[]\<close>, \<^verbatim>\<open>sorted(...)\<close> and a slice make a
  new list object at \<open>next_list\<close>.
\<close>

type_synonym addr = nat

record py_store =
  dicts :: "addr \<Rightarrow> pydict"
  lists :: "addr \<Rightarrow> addr list"
  next_list :: addr

definition new_list :: "py_store \<Rightarrow> addr list \<Rightarrow> addr \<times> py_store" where
  "new_list st xs =
     (next_list st, st\<lparr> lists := (lists st)(next_list st := xs), next_list := Suc (next_list st) \<rparr>)"

text \<open>\<^verbatim>\<open>xs.append(x)\<close>, in place.\<close>

definition list_append :: "py_store \<Rightarrow> addr \<Rightarrow> addr \<Rightarrow> py_store" where
  "list_append st xs x = st\<lparr> lists := (lists st)(xs := lists st xs @ [x]) \<rparr>"

text \<open>\<^verbatim>\<open>d[k] = v\<close>, in place, on the dictionary object at \<open>d\<close>.\<close>

definition dict_setitem :: "py_store \<Rightarrow> addr \<Rightarrow> string \<Rightarrow> pyval \<Rightarrow> py_store" where
  "dict_setitem st d k v = st\<lparr> dicts := (dicts st)(d := py_setitem (dicts st d) k v) \<rparr>"

text \<open>
  \<^verbatim>\<open>rank_papers_by_scores\<close> as a call on the caller's list object \<open>papers\<close>: the
  key reads each dictionary through its reference, and \<^verbatim>\<open>sorted\<close> returns a new list
  object. An exception leaves no new object behind.
\<close>

definition rank_papers_by_scores_ref ::
  "PaperRanker \<Rightarrow> py_store \<Rightarrow> addr \<Rightarrow> (py_error + addr) \<times> py_store" where
  "rank_papers_by_scores_ref self st papers =
     (case py_sorted (\<lambda>p. py_get (dicts st p) ''combined_score'' (PyInt 0)) True (lists st papers) of
        Inl e \<Rightarrow> (Inl e, st)
      | Inr ranked \<Rightarrow> (case new_list st ranked of (r, st') \<Rightarrow> (Inr r, st')))"


section \<open>The scoring client (\<^verbatim>\<open>src/llm/gemini.py\<close>)\<close>

text \<open>
  \<^verbatim>\<open>re.search(r"\{.*\}", s, re.DOTALL)\<close>, as the backtracking matcher runs it. The search
  tries the start positions from left to right. At a start position the pattern needs
  \<^verbatim>\<open>{\<close>; then \<^verbatim>\<open>.*\<close> is greedy, so it first takes as many characters as it can (with
  \<^verbatim>\<open>DOTALL\<close> every character, newlines too) and gives them back one by one until \<^verbatim>\<open>}\<close>
  matches. \<open>re_dotstar_close\<close> is \<^verbatim>\<open>.*\}\<close> anchored at the head of its argument: it
  prefers the match that takes the head character into \<^verbatim>\<open>.*\<close>, and only when there is
  none lets \<^verbatim>\<open>.*\<close> be empty and matches \<^verbatim>\<open>}\<close> against the head. The result is
  \<^verbatim>\<open>match.group()\<close>, the matched text.
\<close>

fun re_dotstar_close :: "string \<Rightarrow> string option" where
  "re_dotstar_close [] = None"
| "re_dotstar_close (c # cs) =
     (case re_dotstar_close cs of
        Some m \<Rightarrow> Some (c # m)
      | None \<Rightarrow> if c = CHR ''}'' then Some [c] else None)"

fun re_search_json :: "string \<Rightarrow> string option" where
  "re_search_json [] = None"
| "re_search_json (c # cs) =
     (if c = CHR ''{'' then
        (case re_dotstar_close cs of
           Some m \<Rightarrow> Some (c # m)
         | None \<Rightarrow> re_search_json cs)
      else re_search_json cs)"

record GeminiClient =
  batch_size :: int

text \<open>
  Two collaborators of \<^verbatim>\<open>score_paper_relevance\<close> are outside the repository and are
  parameters here:
  \<^item> \<open>generate_content\<close> stands for everything before the \<^verbatim>\<open>try\<close>: it builds the prompt
    from the paper, \<^verbatim>\<open>keywords\<close> and \<^verbatim>\<open>negative_keywords\<close> (\<^verbatim>\<open>None\<close> by default) and
    returns the response of the model API;
  \<^item> \<open>json_loads\<close> is \<^verbatim>\<open>json.loads\<close> on a text that starts with \<^verbatim>\<open>{\<close>: the dictionary it
    parses to, or \<open>None\<close> where Python raises \<^verbatim>\<open>json.JSONDecodeError\<close>, the one
    exception the \<^verbatim>\<open>except\<close> clause catches (the recursion limit of the interpreter is
    not modelled).
  All three \<^verbatim>\<open>return\<close> statements return a dictionary.
\<close>

type_synonym api = "pydict \<Rightarrow> string list \<Rightarrow> string list option \<Rightarrow> response"

type_synonym json_parser = "string \<Rightarrow> pydict option"

definition score_paper_relevance ::
  "api \<Rightarrow> json_parser \<Rightarrow> pydict \<Rightarrow> string list \<Rightarrow> string list option \<Rightarrow> pydict" where
  "score_paper_relevance generate_content json_loads paper keywords negative_keywords =
     (let response = generate_content paper keywords negative_keywords in
      case re_search_json (response_text response) of
        Some json_str \<Rightarrow>
          (case json_loads json_str of
             Some result \<Rightarrow> result
           | None \<Rightarrow> [(''relevance_score'', PyInt 1),
                      (''significance_score'', PyInt 1),
                      (''combined_score'', PyInt 2)])
      | None \<Rightarrow> [(''error'', PyStr ''No valid JSON found in scoring''),
                 (''raw_response'', PyResponse response)])"

text \<open>
  \<^verbatim>\<open>range(0, n, step)\<close> raises \<^verbatim>\<open>ValueError\<close> for a zero step, is empty for a negative
  one and otherwise holds the multiples of \<open>step\<close> below \<open>n\<close>. The slice
  \<^verbatim>\<open>xs[i:j]\<close> is needed for \<open>0 \<le> i \<le> j\<close> only.
\<close>

definition py_range0 :: "nat \<Rightarrow> int \<Rightarrow> py_error + nat list" where
  "py_range0 n step =
     (if step = 0 then Inl ValueError
      else if step < 0 then Inr []
      else Inr (map (\<lambda>k. k * nat step) [0 ..< (n + nat step - 1) div nat step]))"

definition py_slice :: "'a list \<Rightarrow> nat \<Rightarrow> nat \<Rightarrow> 'a list" where
  "py_slice xs i j = take (j - i) (drop i xs)"

text \<open>
  The body of the inner loop of \<^verbatim>\<open>batch_score_papers\<close>: score the paper as it is now,
  write the three scores into the same dictionary object, append its reference to
  \<^verbatim>\<open>scored_papers\<close>.
\<close>

definition score_and_attach ::
  "api \<Rightarrow> json_parser \<Rightarrow> string list \<Rightarrow> string list option \<Rightarrow> addr \<Rightarrow> addr \<Rightarrow> py_store \<Rightarrow> py_store" where
  "score_and_attach generate_content json_loads keywords negative_keywords scored_papers paper st =
     (let scores = score_paper_relevance generate_content json_loads (dicts st paper)
                     keywords negative_keywords;
          st1 = dict_setitem st paper ''relevance_score'' (py_get scores ''relevance_score'' (PyInt 1));
          st2 = dict_setitem st1 paper ''significance_score'' (py_get scores ''significance_score'' (PyInt 1));
          st3 = dict_setitem st2 paper ''combined_score'' (py_get scores ''combined_score'' (PyInt 2))
      in list_append st3 scored_papers paper)"

text \<open>
  \<^verbatim>\<open>batch_score_papers\<close> on the caller's list object \<open>papers\<close>. The progress line it
  prints for each batch is not part of the state. The batch is a slice, so a list of its
  own; nothing keeps a reference to it after the iteration, and the model iterates over
  its elements directly.
\<close>

definition batch_score_papers ::
  "GeminiClient \<Rightarrow> api \<Rightarrow> json_parser \<Rightarrow> py_store \<Rightarrow> addr \<Rightarrow> string list \<Rightarrow> string list option
     \<Rightarrow> (py_error + addr) \<times> py_store" where
  "batch_score_papers self generate_content json_loads st papers keywords negative_keywords =
     (case new_list st [] of (scored_papers, st0) \<Rightarrow>
      (case py_range0 (length (lists st0 papers)) (batch_size self) of
         Inl e \<Rightarrow> (Inl e, st0)
       | Inr starts \<Rightarrow>
           (Inr scored_papers,
            fold (\<lambda>i st1.
                    fold (score_and_attach generate_content json_loads keywords negative_keywords
                            scored_papers)
                         (py_slice (lists st1 papers) i (i + nat (batch_size self))) st1)
                 starts st0)))"


section \<open>Notions used to state the properties\<close>

text \<open>
  The scores of a paper record are integers (data model of the specification):
  \<open>int_valued k p\<close> says that the entry \<open>k\<close> of \<open>p\<close>, where there is one, holds an
  integer, and \<open>score_of k p\<close> is \<^verbatim>\<open>p.get(k, 0)\<close> as an integer.
\<close>

definition int_valued :: "string \<Rightarrow> pydict \<Rightarrow> bool" where
  "int_valued k p =
     (case map_of p k of None \<Rightarrow> True | Some (PyInt n) \<Rightarrow> True | Some _ \<Rightarrow> False)"

definition score_of :: "string \<Rightarrow> pydict \<Rightarrow> int" where
  "score_of k p = (case py_get p k (PyInt 0) of PyInt n \<Rightarrow> n | _ \<Rightarrow> 0)"

text \<open>
  What \<^verbatim>\<open>json.loads\<close> can return holds no API response object.
\<close>

fun is_json :: "pyval \<Rightarrow> bool" where
  "is_json (PyResponse r) = False"
| "is_json _ = True"

definition json_dict :: "pydict \<Rightarrow> bool" where
  "json_dict d = list_all (\<lambda>kv. is_json (snd kv)) d"

text \<open>The degraded default of the scorer.\<close>

definition degraded_default :: pydict where
  "degraded_default = [(''relevance_score'', PyInt 1),
                       (''significance_score'', PyInt 1),
                       (''combined_score'', PyInt 2)]"





section \<open>Examples\<close>

text \<open>Concrete inputs for the examples of the specification.\<close>

definition scored_paper :: "string \<Rightarrow> int \<Rightarrow> pydict" where
  "scored_paper ident s = [(''id'', PyStr ident), (''combined_score'', PyInt s)]"

definition rated_paper :: "int \<Rightarrow> int \<Rightarrow> int \<Rightarrow> pydict" where
  "rated_paper r s c =
     [(''relevance_score'', PyInt r), (''significance_score'', PyInt s), (''combined_score'', PyInt c)]"

text \<open>
  The examples of the specification for the scorer. The response to paper A wraps a JSON
  object in prose, the response to paper B has no braces, every other response is
  \<^verbatim>\<open>{invalid json}\<close>. \<open>example_json_loads\<close> agrees with \<^verbatim>\<open>json.loads\<close> on the brace spans
  of these responses: it parses the object of the first and raises on the other.
\<close>

definition quoted :: "string \<Rightarrow> string" where
  "quoted s = CHR 0x22 # s @ [CHR 0x22]"

definition example_json_body :: string where
  "example_json_body =
     quoted ''relevance_score'' @ '':3,'' @ quoted ''significance_score'' @ '':2,''
       @ quoted ''combined_score'' @ '':5''"

definition example_json :: string where
  "example_json = CHR ''{'' # example_json_body @ [CHR ''}'']"

definition example_scores :: pydict where
  "example_scores = [(''relevance_score'', PyInt 3), (''significance_score'', PyInt 2),
                     (''combined_score'', PyInt 5)]"

definition example_json_loads :: json_parser where
  "example_json_loads s = (if s = example_json then Some example_scores else None)"

definition example_api :: api where
  "example_api paper keywords negative_keywords =
     \<lparr> response_text =
         (if py_get paper ''id'' PyNone = PyStr ''A''
            then ''Here is my answer: '' @ example_json @ '' thanks''
          else if py_get paper ''id'' PyNone = PyStr ''B''
            then ''no json here''
          else ''{invalid json}'') \<rparr>"


text \<open>A store with three papers and the list that holds them.\<close>

definition example_store :: py_store where
  "example_store =
     \<lparr> dicts = (\<lambda>a. if a = 0 then scored_paper ''A'' 5
                    else if a = 1 then scored_paper ''B'' 5
                    else scored_paper ''C'' 7),
       lists = (\<lambda>l. if l = 0 then [0, 1, 2] else []),
       next_list = 1 \<rparr>"


section \<open>Exceptions and integer scores\<close>

lemma py_bind_simps [simp]: "py_bind (Inl e) f = Inl e" "py_bind (Inr x) f = f x"
  by (simp_all add: py_bind_def)

lemma py_get_int_valued: "int_valued k p \<Longrightarrow> py_get p k (PyInt 0) = PyInt (score_of k p)"
  by (auto simp: int_valued_def score_of_def py_get_def split: option.splits pyval.splits)


text \<open>On integer keys the sort raises nothing and is the stable insertion sort of the library.\<close>

lemma py_insort_int:
  "\<forall>y\<in>set ys. key y = PyInt (f y) \<Longrightarrow> key x = PyInt (f x) \<Longrightarrow>
   py_insort key x ys = Inr (insort_key f x ys)"
  by (induction ys) auto

lemma py_sort_int:
  "\<forall>x\<in>set xs. key x = PyInt (f x) \<Longrightarrow> py_sort key xs = Inr (sort_key f xs)"
  by (induction xs) (auto simp: py_insort_int)

lemma py_sorted_reverse_int:
  "\<forall>x\<in>set xs. key x = PyInt (f x) \<Longrightarrow> py_sorted key True xs = Inr (rev (sort_key f (rev xs)))"
  using py_sort_int [of "rev xs" key f] by (simp add: py_sorted_def)

lemma py_filter_total:
  "\<forall>x\<in>set xs. c x = Inr (P x) \<Longrightarrow> py_filter c xs = Inr (filter P xs)"
  by (induction xs) auto



lemma rank_papers_by_scores_int:
  assumes "\<forall>p\<in>set papers. int_valued ''combined_score'' p"
  shows "rank_papers_by_scores self papers =
         Inr (rev (sort_key (score_of ''combined_score'') (rev papers)))"
  unfolding rank_papers_by_scores_def
  by (rule py_sorted_reverse_int) (use assms in \<open>simp add: py_get_int_valued\<close>)

lemma filter_by_minimum_score_int:
  assumes "\<forall>p\<in>set papers. int_valued ''combined_score'' p"
  shows "filter_by_minimum_score self papers =
         Inr (filter (\<lambda>p. score_of ''combined_score'' p \<ge> min_combined_score self) papers)"
  unfolding filter_by_minimum_score_def
  by (rule py_filter_total) (use assms in \<open>simp add: py_get_int_valued\<close>)

lemma int_valued_scored_paper [simp]: "int_valued ''combined_score'' (scored_paper ident s)"
  by (simp add: int_valued_def scored_paper_def)

lemma score_of_scored_paper [simp]: "score_of ''combined_score'' (scored_paper ident s) = s"
  by (simp add: score_of_def scored_paper_def py_get_def)

lemma int_valued_rated_paper [simp]: "int_valued k (rated_paper r s c)"
  by (simp add: int_valued_def rated_paper_def)

lemma score_of_rated_paper [simp]:
  "score_of ''relevance_score'' (rated_paper r s c) = r"
  "score_of ''significance_score'' (rated_paper r s c) = s"
  "score_of ''combined_score'' (rated_paper r s c) = c"
  by (simp_all add: score_of_def rated_paper_def py_get_def)

section \<open>Ranking\<close>

text \<open>
  Claim C1. On paper records whose \<^verbatim>\<open>combined_score\<close>, where present, is an integer,
  \<^verbatim>\<open>rank_papers_by_scores\<close> raises nothing and returns a permutation of its input of
  the same length, sorted non-increasing by \<^verbatim>\<open>combined_score\<close> with a missing score
  counted as 0; the records of each score stand in the order they have in the input
  (the sort is stable and has no second key).
\<close>

theorem rank_papers_by_scores_sorted_stable_perm:
  assumes "\<forall>p\<in>set papers. int_valued ''combined_score'' p"
  shows "\<exists>ranked. rank_papers_by_scores self papers = Inr ranked
           \<and> mset ranked = mset papers
           \<and> length ranked = length papers
           \<and> sorted_wrt (\<lambda>p q. score_of ''combined_score'' p \<ge> score_of ''combined_score'' q) ranked
           \<and> (\<forall>k. filter (\<lambda>p. score_of ''combined_score'' p = k) ranked
                  = filter (\<lambda>p. score_of ''combined_score'' p = k) papers)"
proof -
  let ?f = "score_of ''combined_score''"
  let ?r = "rev (sort_key ?f (rev papers))"
  have r: "rank_papers_by_scores self papers = Inr ?r"
    by (rule rank_papers_by_scores_int [OF assms])
  have m: "mset ?r = mset papers" by simp
  have l: "length ?r = length papers" by simp
  have "sorted (map ?f (sort_key ?f (rev papers)))" by (rule sorted_sort_key)
  then have "sorted_wrt (\<lambda>p q. ?f p \<le> ?f q) (sort_key ?f (rev papers))"
    by (simp add: sorted_map)
  then have s: "sorted_wrt (\<lambda>p q. ?f p \<ge> ?f q) ?r"
    by (simp add: sorted_wrt_rev)
  have st: "filter (\<lambda>p. ?f p = k) ?r = filter (\<lambda>p. ?f p = k) papers" for k
    by (simp add: rev_filter [symmetric] sort_key_stable)
  from r m l s st show ?thesis by blast
qed

text \<open>
  The example of the specification: A and B have score 5, C has score 7.
\<close>

theorem rank_papers_by_scores_sorted_stable_perm_witness:
  "int_valued ''combined_score'' (scored_paper ''A'' 5)
   \<and> int_valued ''combined_score'' (scored_paper ''B'' 5)
   \<and> int_valued ''combined_score'' (scored_paper ''C'' 7)
   \<and> (\<exists>ranked.
         rank_papers_by_scores PaperRanker_init
           [scored_paper ''A'' 5, scored_paper ''B'' 5, scored_paper ''C'' 7] = Inr ranked
       \<and> mset ranked = mset [scored_paper ''A'' 5, scored_paper ''B'' 5, scored_paper ''C'' 7]
       \<and> length ranked = 3
       \<and> sorted_wrt (\<lambda>p q. score_of ''combined_score'' p \<ge> score_of ''combined_score'' q) ranked
       \<and> filter (\<lambda>p. score_of ''combined_score'' p = 5) ranked
           = [scored_paper ''A'' 5, scored_paper ''B'' 5])"
proof -
  let ?ps = "[scored_paper ''A'' 5, scored_paper ''B'' 5, scored_paper ''C'' 7]"
  have h: "\<forall>p\<in>set ?ps. int_valued ''combined_score'' p" by simp
  from rank_papers_by_scores_sorted_stable_perm [OF h, of PaperRanker_init]
  obtain ranked where r: "rank_papers_by_scores PaperRanker_init ?ps = Inr ranked"
    and m: "mset ranked = mset ?ps" and l: "length ranked = length ?ps"
    and s: "sorted_wrt (\<lambda>p q. score_of ''combined_score'' p \<ge> score_of ''combined_score'' q) ranked"
    and st: "\<forall>k. filter (\<lambda>p. score_of ''combined_score'' p = k) ranked
                  = filter (\<lambda>p. score_of ''combined_score'' p = k) ?ps"
    by blast
  from st have "filter (\<lambda>p. score_of ''combined_score'' p = 5) ranked
                  = [scored_paper ''A'' 5, scored_paper ''B'' 5]" by simp
  with h r m l s show ?thesis by simp
qed

lemma rank_papers_by_scores_example:
  "rank_papers_by_scores PaperRanker_init
     [scored_paper ''A'' 5, scored_paper ''B'' 5, scored_paper ''C'' 7]
   = Inr [scored_paper ''C'' 7, scored_paper ''A'' 5, scored_paper ''B'' 5]"
  by (simp add: rank_papers_by_scores_int)

section \<open>Filtering\<close>

text \<open>
  Claim C3. On paper records whose \<^verbatim>\<open>combined_score\<close>, where present, is an integer,
  \<^verbatim>\<open>filter_by_minimum_score\<close> returns exactly the records whose score (0 when the
  entry is absent) is at least \<^verbatim>\<open>min_combined_score\<close>, in the order of the input.
\<close>

theorem filter_by_minimum_score_exact:
  assumes "\<forall>p\<in>set papers. int_valued ''combined_score'' p"
  shows "filter_by_minimum_score self papers =
         Inr (filter (\<lambda>p. score_of ''combined_score'' p \<ge> min_combined_score self) papers)"
proof -
  have "py_ge (py_get p ''combined_score'' (PyInt 0)) (PyInt (min_combined_score self))
          = Inr (score_of ''combined_score'' p \<ge> min_combined_score self)"
    if "p \<in> set papers" for p
  proof -
    from assms that have "int_valued ''combined_score'' p" by blast
    then show ?thesis by (simp add: py_get_int_valued)
  qed
  then show ?thesis
    unfolding filter_by_minimum_score_def by (intro py_filter_total) blast
qed

text \<open>
  The example of the specification: threshold 4 on the scores 3, 4, 5.
\<close>

theorem filter_by_minimum_score_exact_witness:
  "int_valued ''combined_score'' (scored_paper ''A'' 3)
   \<and> int_valued ''combined_score'' (scored_paper ''B'' 4)
   \<and> int_valued ''combined_score'' (scored_paper ''C'' 5)
   \<and> filter_by_minimum_score PaperRanker_init
       [scored_paper ''A'' 3, scored_paper ''B'' 4, scored_paper ''C'' 5]
     = Inr [scored_paper ''B'' 4, scored_paper ''C'' 5]"
proof -
  let ?ps = "[scored_paper ''A'' 3, scored_paper ''B'' 4, scored_paper ''C'' 5]"
  have h: "\<forall>p\<in>set ?ps. int_valued ''combined_score'' p" by simp
  show ?thesis
    using h filter_by_minimum_score_exact [OF h, of PaperRanker_init]
    by (simp add: PaperRanker_init_def)
qed

section \<open>Selection\<close>

lemma select_top_papers_int:
  assumes "\<forall>p\<in>set papers. int_valued ''combined_score'' p"
  shows "select_top_papers self papers limit =
         Inr (py_slice_to
               (rev (sort_key (score_of ''combined_score'')
                  (rev (filter (\<lambda>p. score_of ''combined_score'' p \<ge> min_combined_score self) papers))))
               limit)"
proof -
  have "\<forall>p\<in>set (filter (\<lambda>p. score_of ''combined_score'' p \<ge> min_combined_score self) papers).
          int_valued ''combined_score'' p"
    using assms by simp
  then show ?thesis
    by (simp add: select_top_papers_def filter_by_minimum_score_int [OF assms]
        rank_papers_by_scores_int)
qed

lemma select_top_papers_nonneg_limit:
  assumes "\<forall>p\<in>set papers. int_valued ''combined_score'' p" and "0 \<le> limit"
  shows "\<exists>filtered ranked.
           filter_by_minimum_score self papers = Inr filtered
         \<and> rank_papers_by_scores self filtered = Inr ranked
         \<and> select_top_papers self papers limit = Inr (take (nat limit) ranked)"
proof -
  let ?f = "filter (\<lambda>p. score_of ''combined_score'' p \<ge> min_combined_score self) papers"
  have f: "filter_by_minimum_score self papers = Inr ?f"
    by (rule filter_by_minimum_score_int [OF assms(1)])
  have "\<forall>p\<in>set ?f. int_valued ''combined_score'' p" using assms(1) by simp
  then have r: "rank_papers_by_scores self ?f = Inr (rev (sort_key (score_of ''combined_score'') (rev ?f)))"
    by (rule rank_papers_by_scores_int)
  from f r assms(2) show ?thesis
    by (simp add: select_top_papers_def py_slice_to_def)
qed

text \<open>
  Claim C2 says that \<^verbatim>\<open>select_top_papers\<close> returns the empty list for every
  \<^verbatim>\<open>limit <= 0\<close>. With \<^verbatim>\<open>limit = -1\<close> the slice \<^verbatim>\<open>ranked_papers[:limit]\<close> drops the last
  record only: of three papers that pass the threshold, two are returned.
\<close>

theorem select_top_papers_negative_limit:
  "select_top_papers PaperRanker_init
     [scored_paper ''A'' 5, scored_paper ''B'' 4, scored_paper ''C'' 7] (- 1)
   = Inr [scored_paper ''C'' 7, scored_paper ''A'' 5]"
  by (simp add: select_top_papers_int py_slice_to_def PaperRanker_init_def)

section \<open>Statistics\<close>



text \<open>
  Claim C5. On the empty list \<^verbatim>\<open>get_selection_stats\<close> returns the record whose six fields
  are 0; the result is a value, not \<^verbatim>\<open>ZeroDivisionError\<close>, which \<open>py_truediv\<close> raises
  for the divisor 0: the division is not reached.
\<close>

theorem get_selection_stats_empty:
  "get_selection_stats self [] =
     Inr \<lparr> total = 0, avg_relevance = 0, avg_significance = 0, avg_combined = 0,
           high_relevance_count = 0, high_significance_count = 0 \<rparr>"
  by (simp add: get_selection_stats_def)


section \<open>Ranking as a call on the caller's list\<close>

lemma py_insort_map:
  "py_insort key (f x) (map f ys) =
     (case py_insort (\<lambda>a. key (f a)) x ys of Inl e \<Rightarrow> Inl e | Inr r \<Rightarrow> Inr (map f r))"
  by (induction ys) (auto split: sum.splits)

lemma py_sort_map:
  "py_sort key (map f xs) =
     (case py_sort (\<lambda>a. key (f a)) xs of Inl e \<Rightarrow> Inl e | Inr r \<Rightarrow> Inr (map f r))"
  by (induction xs) (auto simp: py_insort_map split: sum.splits)

lemma py_sorted_map:
  "py_sorted key reverse (map f xs) =
     (case py_sorted (\<lambda>a. key (f a)) reverse xs of Inl e \<Rightarrow> Inl e | Inr r \<Rightarrow> Inr (map f r))"
  by (simp add: py_sorted_def py_sort_map rev_map split: sum.splits)

text \<open>
  Claim C9. A call of \<^verbatim>\<open>rank_papers_by_scores\<close> on a list object of the caller leaves that
  list with the same references in the same order, changes no dictionary and no other
  list in use, and returns the ranking as a list object that did not exist before the
  call; it holds, by reference, the records the ranking on the values returns. A call
  that raises changes nothing.
\<close>

theorem rank_papers_by_scores_ref_frame:
  assumes "papers < next_list st"
  shows "\<exists>res st'. rank_papers_by_scores_ref self st papers = (res, st')
        \<and> lists st' papers = lists st papers
        \<and> dicts st' = dicts st
        \<and> (\<forall>l. l < next_list st \<longrightarrow> lists st' l = lists st l)
        \<and> (case res of
             Inl e \<Rightarrow> st' = st
               \<and> rank_papers_by_scores self (map (dicts st) (lists st papers)) = Inl e
           | Inr r \<Rightarrow> r = next_list st \<and> r \<noteq> papers
               \<and> rank_papers_by_scores self (map (dicts st) (lists st papers))
                    = Inr (map (dicts st') (lists st' r)))"
proof (cases "py_sorted (\<lambda>p. py_get (dicts st p) ''combined_score'' (PyInt 0)) True (lists st papers)")
  case (Inl e)
  then have "rank_papers_by_scores_ref self st papers = (Inl e, st)"
    by (simp add: rank_papers_by_scores_ref_def)
  moreover have "rank_papers_by_scores self (map (dicts st) (lists st papers)) = Inl e"
    using Inl by (simp add: rank_papers_by_scores_def py_sorted_map)
  ultimately show ?thesis by simp
next
  case (Inr ranked)
  let ?st' = "st\<lparr> lists := (lists st)(next_list st := ranked), next_list := Suc (next_list st) \<rparr>"
  have c: "rank_papers_by_scores_ref self st papers = (Inr (next_list st), ?st')"
    using Inr by (simp add: rank_papers_by_scores_ref_def new_list_def)
  have v: "rank_papers_by_scores self (map (dicts st) (lists st papers)) = Inr (map (dicts st) ranked)"
    using Inr by (simp add: rank_papers_by_scores_def py_sorted_map)
  have "lists ?st' papers = lists st papers" using assms by simp
  moreover have "dicts ?st' = dicts st" by simp
  moreover have "\<forall>l. l < next_list st \<longrightarrow> lists ?st' l = lists st l" by simp
  moreover have "next_list st \<noteq> papers" using assms by simp
  moreover have "lists ?st' (next_list st) = ranked" by simp
  ultimately show ?thesis using c v by simp
qed

lemma rank_papers_by_scores_ref_example:
  "rank_papers_by_scores_ref PaperRanker_init example_store 0 =
     (Inr 1, example_store\<lparr> lists := (lists example_store)(1 := [2, 0, 1]), next_list := 2 \<rparr>)"
  by (simp add: rank_papers_by_scores_ref_def new_list_def example_store_def
      py_sorted_def py_get_def scored_paper_def)

text \<open>
  The list [A, B, C] with the scores 5, 5, 7 stays as it is; the new list is [C, A, B].
\<close>

theorem rank_papers_by_scores_ref_frame_witness:
  "0 < next_list example_store
   \<and> (\<exists>st'. rank_papers_by_scores_ref PaperRanker_init example_store 0 = (Inr 1, st')
         \<and> lists st' 0 = [0, 1, 2]
         \<and> lists st' 1 = [2, 0, 1]
         \<and> dicts st' = dicts example_store)"
proof -
  have h: "0 < next_list example_store" by (simp add: example_store_def)
  from rank_papers_by_scores_ref_frame [OF h, of PaperRanker_init]
  obtain res st' where c: "rank_papers_by_scores_ref PaperRanker_init example_store 0 = (res, st')"
    and l: "lists st' 0 = lists example_store 0"
    and d: "dicts st' = dicts example_store"
    by blast
  from c have res: "res = Inr 1"
    and st': "st' = example_store\<lparr> lists := (lists example_store)(1 := [2, 0, 1]), next_list := 2 \<rparr>"
    by (simp_all add: rank_papers_by_scores_ref_example)
  have l0: "lists st' 0 = [0, 1, 2]" using l by (simp add: example_store_def)
  have l1: "lists st' 1 = [2, 0, 1]" unfolding st' by simp
  from h c res l0 l1 d show ?thesis by blast
qed


section \<open>The regular expression finds the span from the first to the last brace\<close>

lemma re_dotstar_close_None: "CHR ''}'' \<notin> set cs \<Longrightarrow> re_dotstar_close cs = None"
  by (induction cs) auto

lemma re_dotstar_close_last:
  "CHR ''}'' \<notin> set c \<Longrightarrow> re_dotstar_close (b @ CHR ''}'' # c) = Some (b @ [CHR ''}''])"
  by (induction b) (auto simp: re_dotstar_close_None)

lemma re_search_json_skip:
  "CHR ''{'' \<notin> set a \<Longrightarrow> re_search_json (a @ rest) = re_search_json rest"
  by (induction a) auto

lemma re_search_json_span:
  assumes "CHR ''{'' \<notin> set a" and "CHR ''}'' \<notin> set c"
  shows "re_search_json (a @ CHR ''{'' # b @ CHR ''}'' # c) = Some (CHR ''{'' # b @ [CHR ''}''])"
  using assms by (simp add: re_search_json_skip re_dotstar_close_last)

lemma brace_span_first_last:
  assumes "s = a0 @ CHR ''{'' # b0 @ CHR ''}'' # c0"
  shows "\<exists>a b c. s = a @ CHR ''{'' # b @ CHR ''}'' # c \<and> CHR ''{'' \<notin> set a \<and> CHR ''}'' \<notin> set c"
proof -
  have "CHR ''{'' \<in> set s" using assms by simp
  then obtain a t where s: "s = a @ CHR ''{'' # t" and a: "CHR ''{'' \<notin> set a"
    by (meson split_list_first)
  have la: "length a \<le> length a0"
  proof (rule ccontr)
    assume "\<not> length a \<le> length a0"
    then have lt: "length a0 < length a" by simp
    then have "s ! length a0 = a ! length a0" unfolding s by (simp add: nth_append)
    moreover have "s ! length a0 = CHR ''{''" unfolding assms by simp
    ultimately have "CHR ''{'' \<in> set a" using lt by (metis nth_mem)
    with a show False by simp
  qed
  have t: "t = drop (Suc (length a)) s" unfolding s by simp
  have r: "b0 @ CHR ''}'' # c0 = drop (Suc (length a0)) s" unfolding assms by simp
  have "set (drop (Suc (length a0)) s) \<subseteq> set (drop (Suc (length a)) s)"
    by (rule set_drop_subset_set_drop) (use la in simp)
  moreover have "CHR ''}'' \<in> set (b0 @ CHR ''}'' # c0)" by simp
  ultimately have "CHR ''}'' \<in> set t" unfolding t r by blast
  then obtain b c where "t = b @ CHR ''}'' # c" and "CHR ''}'' \<notin> set c"
    by (meson split_list_last)
  with s a show ?thesis by blast
qed

lemma re_dotstar_close_Some_mem: "re_dotstar_close cs = Some m \<Longrightarrow> CHR ''}'' \<in> set cs"
  using re_dotstar_close_None [of cs] by (cases "CHR ''}'' \<in> set cs") simp_all

lemma re_search_json_Some_span:
  "re_search_json s = Some m \<Longrightarrow> \<exists>a b c. s = a @ CHR ''{'' # b @ CHR ''}'' # c"
proof (induction s)
  case Nil
  then show ?case by simp
next
  case (Cons x s)
  show ?case
  proof (cases "x = CHR ''{'' \<and> re_dotstar_close s \<noteq> None")
    case True
    then obtain m' where "re_dotstar_close s = Some m'" by blast
    then have "CHR ''}'' \<in> set s" by (rule re_dotstar_close_Some_mem)
    then obtain b c where "s = b @ CHR ''}'' # c" by (meson split_list)
    with True have "x # s = [] @ CHR ''{'' # b @ CHR ''}'' # c" by simp
    then show ?thesis by blast
  next
    case False
    have "re_search_json s = Some m"
    proof (cases "x = CHR ''{''")
      case True
      with False have "re_dotstar_close s = None" by simp
      with True Cons.prems show ?thesis by simp
    next
      case False
      with Cons.prems show ?thesis by simp
    qed
    then obtain a b c where "s = a @ CHR ''{'' # b @ CHR ''}'' # c" using Cons.IH by blast
    then have "x # s = (x # a) @ CHR ''{'' # b @ CHR ''}'' # c" by simp
    then show ?thesis by blast
  qed
qed

lemma re_search_json_None_iff:
  "re_search_json s = None \<longleftrightarrow> \<not> (\<exists>a b c. s = a @ CHR ''{'' # b @ CHR ''}'' # c)"
proof
  assume n: "re_search_json s = None"
  show "\<not> (\<exists>a b c. s = a @ CHR ''{'' # b @ CHR ''}'' # c)"
  proof
    assume "\<exists>a b c. s = a @ CHR ''{'' # b @ CHR ''}'' # c"
    then obtain a0 b0 c0 where "s = a0 @ CHR ''{'' # b0 @ CHR ''}'' # c0" by blast
    from brace_span_first_last [OF this]
    obtain a b c where "s = a @ CHR ''{'' # b @ CHR ''}'' # c"
      and "CHR ''{'' \<notin> set a" and "CHR ''}'' \<notin> set c" by blast
    then have "re_search_json s = Some (CHR ''{'' # b @ [CHR ''}''])"
      by (simp add: re_search_json_span)
    with n show False by simp
  qed
next
  assume h: "\<not> (\<exists>a b c. s = a @ CHR ''{'' # b @ CHR ''}'' # c)"
  show "re_search_json s = None"
  proof (cases "re_search_json s")
    case None
    then show ?thesis .
  next
    case (Some m)
    from re_search_json_Some_span [OF this] h show ?thesis by blast
  qed
qed


section \<open>Recovery of the scores from the response\<close>



lemma json_dict_no_response:
  assumes "json_dict d"
  shows "map_of d k \<noteq> Some (PyResponse r)"
proof
  assume "map_of d k = Some (PyResponse r)"
  then have "(k, PyResponse r) \<in> set d" by (rule map_of_SomeD)
  with assms have "is_json (snd (k, PyResponse r))"
    unfolding json_dict_def list_all_iff by blast
  then show False by simp
qed

lemma json_dict_degraded_default: "json_dict degraded_default"
  by (simp add: json_dict_def degraded_default_def)

text \<open>
  Claim C6. When the response text has a \<^verbatim>\<open>{\<close> and, somewhere behind it, a \<^verbatim>\<open>}\<close>, the
  text splits at its first \<^verbatim>\<open>{\<close> and its last \<^verbatim>\<open>}\<close>, the search extracts exactly the
  span between the two (both included), and when \<^verbatim>\<open>json.loads\<close> parses that span,
  \<^verbatim>\<open>score_paper_relevance\<close> returns the parsed dictionary; what stands before and behind
  the span plays no part.
\<close>

theorem score_paper_relevance_greedy_span:
  assumes "response_text (generate_content paper keywords negative_keywords)
             = a0 @ CHR ''{'' # b0 @ CHR ''}'' # c0"
  shows "\<exists>a b c.
           response_text (generate_content paper keywords negative_keywords)
             = a @ CHR ''{'' # b @ CHR ''}'' # c
         \<and> CHR ''{'' \<notin> set a \<and> CHR ''}'' \<notin> set c
         \<and> re_search_json (response_text (generate_content paper keywords negative_keywords))
             = Some (CHR ''{'' # b @ [CHR ''}''])
         \<and> (\<forall>result. json_loads (CHR ''{'' # b @ [CHR ''}'']) = Some result \<longrightarrow>
               score_paper_relevance generate_content json_loads paper keywords negative_keywords
                 = result)"
proof -
  let ?t = "response_text (generate_content paper keywords negative_keywords)"
  from brace_span_first_last [OF assms]
  obtain a b c where d: "?t = a @ CHR ''{'' # b @ CHR ''}'' # c"
    and a: "CHR ''{'' \<notin> set a" and c: "CHR ''}'' \<notin> set c" by blast
  have s: "re_search_json ?t = Some (CHR ''{'' # b @ [CHR ''}''])"
    unfolding d by (rule re_search_json_span [OF a c])
  have "score_paper_relevance generate_content json_loads paper keywords negative_keywords = result"
    if "json_loads (CHR ''{'' # b @ [CHR ''}'']) = Some result" for result
    using s that by (simp add: score_paper_relevance_def)
  with d a c s show ?thesis by blast
qed

text \<open>
  Claim C7. When the response text has no \<^verbatim>\<open>{\<close> with a \<^verbatim>\<open>}\<close> behind it,
  \<^verbatim>\<open>score_paper_relevance\<close> returns the dictionary with the keys \<^verbatim>\<open>error\<close> and
  \<^verbatim>\<open>raw_response\<close>; the latter holds the response object, so the raw text. The result
  differs from the degraded default and from every dictionary that \<^verbatim>\<open>json.loads\<close> can
  return.
\<close>

theorem score_paper_relevance_no_span:
  assumes "\<not> (\<exists>a b c. response_text (generate_content paper keywords negative_keywords)
                         = a @ CHR ''{'' # b @ CHR ''}'' # c)"
  shows "score_paper_relevance generate_content json_loads paper keywords negative_keywords
           = [(''error'', PyStr ''No valid JSON found in scoring''),
              (''raw_response'', PyResponse (generate_content paper keywords negative_keywords))]
       \<and> map_of (score_paper_relevance generate_content json_loads paper keywords negative_keywords)
           \<noteq> map_of degraded_default
       \<and> (\<forall>d. json_dict d \<longrightarrow>
             map_of (score_paper_relevance generate_content json_loads paper keywords negative_keywords)
               \<noteq> map_of d)"
proof -
  let ?r = "generate_content paper keywords negative_keywords"
  let ?res = "score_paper_relevance generate_content json_loads paper keywords negative_keywords"
  have n: "re_search_json (response_text ?r) = None"
    using assms by (simp only: re_search_json_None_iff not_False_eq_True)
  then have e: "?res = [(''error'', PyStr ''No valid JSON found in scoring''),
                        (''raw_response'', PyResponse ?r)]"
    by (simp add: score_paper_relevance_def)
  have raw: "map_of ?res ''raw_response'' = Some (PyResponse ?r)" by (simp add: e)
  have j: "map_of ?res \<noteq> map_of d" if "json_dict d" for d
  proof
    assume "map_of ?res = map_of d"
    with raw have "map_of d ''raw_response'' = Some (PyResponse ?r)" by simp
    with json_dict_no_response [OF that] show False by blast
  qed
  from j [OF json_dict_degraded_default] j e show ?thesis by blast
qed

text \<open>
  Claim C8. When the span from the first \<^verbatim>\<open>{\<close> to the last \<^verbatim>\<open>}\<close> of the response text
  does not parse (\<^verbatim>\<open>json.JSONDecodeError\<close>), \<^verbatim>\<open>score_paper_relevance\<close> returns the fixed
  result with the scores 1, 1 and 2, as a value.
\<close>

theorem score_paper_relevance_degraded_default:
  assumes "response_text (generate_content paper keywords negative_keywords)
             = a @ CHR ''{'' # b @ CHR ''}'' # c"
    and "CHR ''{'' \<notin> set a" and "CHR ''}'' \<notin> set c"
    and "json_loads (CHR ''{'' # b @ [CHR ''}'']) = None"
  shows "score_paper_relevance generate_content json_loads paper keywords negative_keywords
           = [(''relevance_score'', PyInt 1), (''significance_score'', PyInt 1),
              (''combined_score'', PyInt 2)]"
proof -
  have "re_search_json (response_text (generate_content paper keywords negative_keywords))
          = Some (CHR ''{'' # b @ [CHR ''}''])"
    unfolding assms(1) by (rule re_search_json_span [OF assms(2,3)])
  with assms(4) show ?thesis by (simp add: score_paper_relevance_def)
qed

lemma example_api_A:
  "response_text (example_api (scored_paper ''A'' s) kw nkw)
     = ''Here is my answer: '' @ CHR ''{'' # example_json_body @ CHR ''}'' # '' thanks''"
  by (simp add: example_api_def scored_paper_def py_get_def example_json_def)

lemma example_api_B:
  "example_api (scored_paper ''B'' s) kw nkw = \<lparr> response_text = ''no json here'' \<rparr>"
  by (simp add: example_api_def scored_paper_def py_get_def)

lemma example_api_C:
  "response_text (example_api (scored_paper ''C'' s) kw nkw)
     = [] @ CHR ''{'' # ''invalid json'' @ CHR ''}'' # []"
  by (simp add: example_api_def scored_paper_def py_get_def)

lemma example_json_body_braces:
  "CHR ''{'' \<notin> set example_json_body" "CHR ''}'' \<notin> set example_json_body"
  by (simp_all add: example_json_body_def quoted_def)

text \<open>
  The example of the specification: the object between \<^verbatim>\<open>Here is my answer:\<close> and
  \<^verbatim>\<open>thanks\<close> parses to the scores 3, 2, 5.
\<close>

theorem score_paper_relevance_greedy_span_witness:
  "response_text (example_api (scored_paper ''A'' 5) [] None)
     = ''Here is my answer: '' @ CHR ''{'' # example_json_body @ CHR ''}'' # '' thanks''
   \<and> score_paper_relevance example_api example_json_loads (scored_paper ''A'' 5) [] None
     = example_scores"
proof -
  let ?t = "response_text (example_api (scored_paper ''A'' 5) [] None)"
  have h: "?t = ''Here is my answer: '' @ CHR ''{'' # example_json_body @ CHR ''}'' # '' thanks''"
    by (rule example_api_A)
  from score_paper_relevance_greedy_span
    [of example_api "scored_paper ''A'' 5" "[]" None _ _ _ example_json_loads, OF h]
  obtain b where s: "re_search_json ?t = Some (CHR ''{'' # b @ [CHR ''}''])"
    and r: "\<forall>result. example_json_loads (CHR ''{'' # b @ [CHR ''}'']) = Some result \<longrightarrow>
              score_paper_relevance example_api example_json_loads (scored_paper ''A'' 5) [] None
                = result"
    by blast
  have "re_search_json ?t = Some example_json"
    unfolding h example_json_def by (rule re_search_json_span) simp_all
  with s have "CHR ''{'' # b @ [CHR ''}''] = example_json" by simp
  then have "example_json_loads (CHR ''{'' # b @ [CHR ''}'']) = Some example_scores"
    by (simp add: example_json_loads_def)
  with r h show ?thesis by blast
qed

text \<open>
  The example of the specification: \<^verbatim>\<open>no json here\<close>.
\<close>

theorem score_paper_relevance_no_span_witness:
  "\<not> (\<exists>a b c. response_text (example_api (scored_paper ''B'' 5) [] None)
                  = a @ CHR ''{'' # b @ CHR ''}'' # c)
   \<and> score_paper_relevance example_api example_json_loads (scored_paper ''B'' 5) [] None
     = [(''error'', PyStr ''No valid JSON found in scoring''),
        (''raw_response'', PyResponse \<lparr> response_text = ''no json here'' \<rparr>)]"
proof -
  have "re_search_json (response_text (example_api (scored_paper ''B'' 5) [] None)) = None"
    by (simp add: example_api_B)
  with re_search_json_None_iff [of "response_text (example_api (scored_paper ''B'' 5) [] None)"]
  have h: "\<not> (\<exists>a b c. response_text (example_api (scored_paper ''B'' 5) [] None)
                            = a @ CHR ''{'' # b @ CHR ''}'' # c)"
    by blast
  from score_paper_relevance_no_span
    [of example_api "scored_paper ''B'' 5" "[]" None example_json_loads, OF h] h
  show ?thesis by (simp add: example_api_B)
qed

text \<open>
  The example of the specification: \<^verbatim>\<open>{invalid json}\<close>.
\<close>

theorem score_paper_relevance_degraded_default_witness:
  "response_text (example_api (scored_paper ''C'' 7) [] None)
     = [] @ CHR ''{'' # ''invalid json'' @ CHR ''}'' # []
   \<and> CHR ''{'' \<notin> set ([] :: string)
   \<and> CHR ''}'' \<notin> set ([] :: string)
   \<and> example_json_loads (CHR ''{'' # ''invalid json'' @ [CHR ''}'']) = None
   \<and> score_paper_relevance example_api example_json_loads (scored_paper ''C'' 7) [] None
     = [(''relevance_score'', PyInt 1), (''significance_score'', PyInt 1),
        (''combined_score'', PyInt 2)]"
proof -
  have h1: "response_text (example_api (scored_paper ''C'' 7) [] None)
              = [] @ CHR ''{'' # ''invalid json'' @ CHR ''}'' # []"
    by (rule example_api_C)
  have h2: "CHR ''{'' \<notin> set ([] :: string)" and h3: "CHR ''}'' \<notin> set ([] :: string)"
    by simp_all
  have h4: "example_json_loads (CHR ''{'' # ''invalid json'' @ [CHR ''}'']) = None"
    by (simp add: example_json_loads_def example_json_def example_json_body_def quoted_def)
  from score_paper_relevance_degraded_default
    [of example_api "scored_paper ''C'' 7" "[]" None _ _ _ example_json_loads, OF h1 h2 h3 h4] h1 h2 h3 h4
  show ?thesis by blast
qed






section \<open>Batch scoring\<close>
















lemma batch_score_papers_zero_batch_size:
  "fst (batch_score_papers \<lparr> batch_size = 0 \<rparr> g j st papers kw nkw) = Inl ValueError"
  by (simp add: batch_score_papers_def new_list_def py_range0_def)

lemma batch_score_papers_negative_batch_size:
  "batch_size self < 0 \<Longrightarrow> papers < next_list st \<Longrightarrow>
   \<exists>st'. batch_score_papers self g j st papers kw nkw = (Inr (next_list st), st')
       \<and> lists st' (next_list st) = [] \<and> dicts st' = dicts st"
  by (simp add: batch_score_papers_def new_list_def py_range0_def)

end
